theory Spec2Isabelle
  imports Complex_Main "HOL-Library.AList"
begin

section \<open>Python values, errors and arithmetic\<close>

text \<open>
  The services of \<^verbatim>\<open>currency/services.py\<close> and the adapters of
  \<^verbatim>\<open>currency/provider_interface.py\<close> work on dynamically typed Python values: parsed
  JSON documents, dictionaries built by comprehensions, \<^verbatim>\<open>Decimal\<close>s read from the
  store. They are embedded as one datatype. A dictionary is an association list in
  insertion order whose keys are distinct; it is built with \<open>AList.update\<close>, which
  overwrites the entry of an existing key in place and appends a new key, as a Python
  dictionary does.

  Numbers (\<^verbatim>\<open>Decimal\<close>, \<^verbatim>\<open>float\<close> and \<^verbatim>\<open>int\<close>) are exact rationals: the 28
  significant digits of the decimal context, the binary representation error of floats
  and the \<^verbatim>\<open>TypeError\<close> of mixing \<^verbatim>\<open>Decimal\<close> with \<^verbatim>\<open>float\<close> are outside
  this development. JSON booleans are left out.
\<close>

type_synonym date = "int \<times> int \<times> int"

datatype pyval =
    PNone
  | PNum rat
  | PStr string
  | PDate date
  | PList "pyval list"
  | PDict "(string \<times> pyval) list"

text \<open>Every exception the modelled code can raise is a value; \<open>Inl\<close> carries it.\<close>

datatype error =
    ProviderError
  | ValueError
  | KeyError
  | TypeError
  | AttributeError
  | ZeroDivisionError
  | InvalidOperation
  | StoreError

definition bind_err :: "error + 'a \<Rightarrow> ('a \<Rightarrow> error + 'b) \<Rightarrow> error + 'b" where
  "bind_err m f = (case m of Inl e \<Rightarrow> Inl e | Inr x \<Rightarrow> f x)"

text \<open>\<^verbatim>\<open>if data:\<close> and \<^verbatim>\<open>if not rates:\<close> test Python's truth value.\<close>

fun truthy :: "pyval \<Rightarrow> bool" where
  "truthy PNone = False"
| "truthy (PNum r) = (r \<noteq> 0)"
| "truthy (PStr s) = (s \<noteq> [])"
| "truthy (PDate d) = True"
| "truthy (PList xs) = (xs \<noteq> [])"
| "truthy (PDict kv) = (kv \<noteq> [])"

text \<open>
  \<^verbatim>\<open>d[k]\<close> with a string key: \<^verbatim>\<open>KeyError\<close> on a dictionary without the key,
  \<^verbatim>\<open>TypeError\<close> on every value that is not a dictionary (\<^verbatim>\<open>None\<close> and numbers
  are not subscriptable, strings and lists take integer indices only).
\<close>

fun py_getitem :: "pyval \<Rightarrow> string \<Rightarrow> error + pyval" where
  "py_getitem (PDict kv) k = (case map_of kv k of None \<Rightarrow> Inl KeyError | Some v \<Rightarrow> Inr v)"
| "py_getitem v k = Inl TypeError"

text \<open>
  Division. \<^verbatim>\<open>Decimal\<close> division by zero raises \<^verbatim>\<open>DivisionByZero\<close> (a
  \<^verbatim>\<open>ZeroDivisionError\<close>), except \<^verbatim>\<open>0 / 0\<close>, which raises
  \<^verbatim>\<open>InvalidOperation\<close>; float division by zero raises \<^verbatim>\<open>ZeroDivisionError\<close>
  always. Operands that are not numbers raise \<^verbatim>\<open>TypeError\<close>.
\<close>

fun dec_div :: "pyval \<Rightarrow> pyval \<Rightarrow> error + rat" where
  "dec_div (PNum a) (PNum b) =
     (if b = 0 then (if a = 0 then Inl InvalidOperation else Inl ZeroDivisionError)
      else Inr (a / b))"
| "dec_div x y = Inl TypeError"

fun float_div :: "pyval \<Rightarrow> pyval \<Rightarrow> error + rat" where
  "float_div (PNum a) (PNum b) = (if b = 0 then Inl ZeroDivisionError else Inr (a / b))"
| "float_div x y = Inl TypeError"

text \<open>
  \<^verbatim>\<open>round(x, 6)\<close>: both \<^verbatim>\<open>Decimal.__round__\<close> (a \<^verbatim>\<open>quantize\<close> under the default
  context) and the built-in float rounding go to the nearest multiple of \<open>10\<^sup>-\<^sup>6\<close>,
  ties to the even one.
\<close>

definition round_half_even :: "rat \<Rightarrow> int" where
  "round_half_even x =
     (let f = \<lfloor>x\<rfloor>; d = x - of_int f
      in if d < 1 / 2 then f
         else if 1 / 2 < d then f + 1
         else if even f then f else f + 1)"

definition round6 :: "rat \<Rightarrow> rat" where
  "round6 x = of_int (round_half_even (x * 1000000)) / 1000000"

section \<open>The TWRR engine\<close>

text \<open>
  \<^verbatim>\<open>calculate_twrr(historical_rates, amount)\<close>, lines 429--462 of
  \<^verbatim>\<open>services.py\<close>. The loop \<^verbatim>\<open>for i in range(1, len(historical_rates))\<close> reads
  the pair \<^verbatim>\<open>historical_rates[i - 1]\<close>, \<^verbatim>\<open>historical_rates[i]\<close>; the recursion below
  walks the same pairs, carrying \<^verbatim>\<open>total_return\<close>. The statements of the body are
  evaluated in the source's order, so the first exception is the one raised.
\<close>

fun twrr_loop :: "rat \<Rightarrow> rat \<Rightarrow> pyval list \<Rightarrow> error + pyval list" where
  "twrr_loop amount total_return (previous # current # rest) =
     (case py_getitem previous ''rate_value'' of Inl e \<Rightarrow> Inl e | Inr previous_rate \<Rightarrow>
     (case py_getitem current ''rate_value'' of Inl e \<Rightarrow> Inl e | Inr current_rate \<Rightarrow>
     (case dec_div current_rate previous_rate of Inl e \<Rightarrow> Inl e | Inr daily_return \<Rightarrow>
     (case py_getitem current ''valuation_date'' of Inl e \<Rightarrow> Inl e | Inr d \<Rightarrow>
     (case twrr_loop amount (total_return * daily_return) (current # rest) of
        Inl e \<Rightarrow> Inl e
      | Inr twrr_values \<Rightarrow>
          Inr (PDict [(''date'', d), (''rate_value'', current_rate),
                      (''twrr'', PNum (round6 (total_return * daily_return * amount)))]
               # twrr_values))))))"
| "twrr_loop amount total_return xs = Inr []"

definition calculate_twrr :: "pyval list \<Rightarrow> rat \<Rightarrow> error + pyval list" where
  "calculate_twrr historical_rates amount = twrr_loop amount 1 historical_rates"


text \<open>
  A well-formed input point is a dictionary with a numeric \<^verbatim>\<open>rate_value\<close> and a
  \<^verbatim>\<open>valuation_date\<close>; \<open>rate_of\<close> and \<open>date_of\<close> read them. \<open>twrr_point\<close> is the
  shape of one output point, \<open>division_failure\<close> the two exceptions a \<^verbatim>\<open>Decimal\<close>
  division by zero raises.
\<close>

definition rate_of :: "pyval \<Rightarrow> rat" where
  "rate_of x = (case py_getitem x ''rate_value'' of Inr (PNum r) \<Rightarrow> r | _ \<Rightarrow> 0)"





definition daily_return :: "pyval list \<Rightarrow> nat \<Rightarrow> rat" where
  "daily_return hr i = rate_of (hr ! i) / rate_of (hr ! (i - 1))"


section \<open>Rate adapters\<close>

text \<open>
  What lies behind an adapter is a parameter of the model: \<open>http_get url payload\<close> is
  the parsed JSON body of \<^verbatim>\<open>requests.get(url, params=payload).json()\<close>,
  \<open>file_json address path\<close> the document \<^verbatim>\<open>json.load\<close> reads from
  \<^verbatim>\<open>os.path.join(address, path)\<close>, and \<open>decimal_of_str\<close> the numeric reading
  \<^verbatim>\<open>Decimal\<close> gives a string (\<open>None\<close> where it raises). Transport failures and
  documents that are not JSON are outside the model.
\<close>

record world =
  http_get :: "string \<Rightarrow> (pyval \<times> pyval) list \<Rightarrow> pyval"
  file_json :: "string \<Rightarrow> string \<Rightarrow> pyval"
  decimal_of_str :: "string \<Rightarrow> rat option"

text \<open>Both adapter classes keep the same attributes; the class is the \<open>kind\<close>.\<close>

datatype adapter_kind = HttpJsonAdapter | FileJsonAdapter

record adapter =
  kind :: adapter_kind
  adapter_address :: string
  access_key :: pyval
  latest_endpoint_path :: pyval
  latest_endpoint_args :: pyval
  latest_response_path :: pyval
  historical_endpoint_path :: pyval
  historical_endpoint_args :: pyval
  historical_response_path :: pyval

fun py_path :: "pyval \<Rightarrow> string list \<Rightarrow> error + pyval" where
  "py_path v [] = Inr v"
| "py_path v (k # ks) = (case py_getitem v k of Inl e \<Rightarrow> Inl e | Inr u \<Rightarrow> py_path u ks)"

text \<open>\<^verbatim>\<open>d.get(k, default)\<close> with a string key; only a dictionary has the method.\<close>

fun py_get :: "pyval \<Rightarrow> string \<Rightarrow> pyval \<Rightarrow> error + pyval" where
  "py_get (PDict kv) k dflt = (case map_of kv k of None \<Rightarrow> Inr dflt | Some v \<Rightarrow> Inr v)"
| "py_get v k dflt = Inl AttributeError"

text \<open>
  The constructors read the provider's \<^verbatim>\<open>config\<close> in the order of the assignments
  of \<^verbatim>\<open>__init__\<close>; a missing key is a \<^verbatim>\<open>KeyError\<close>.
\<close>

definition new_HttpJsonAdapter :: "string \<Rightarrow> pyval \<Rightarrow> error + adapter" where
  "new_HttpJsonAdapter addr provider_config =
     bind_err (py_path provider_config [''auth'', ''access_key'']) (\<lambda>key.
     bind_err (py_path provider_config [''endpoints'', ''latest'', ''request'', ''path'']) (\<lambda>lp.
     bind_err (py_path provider_config [''endpoints'', ''latest'', ''request'', ''args'']) (\<lambda>la.
     bind_err (py_path provider_config [''endpoints'', ''latest'', ''response'', ''path'']) (\<lambda>lr.
     bind_err (py_path provider_config [''endpoints'', ''historical'', ''request'', ''path'']) (\<lambda>hp.
     bind_err (py_path provider_config [''endpoints'', ''historical'', ''request'', ''args'']) (\<lambda>ha.
     bind_err (py_path provider_config [''endpoints'', ''historical'', ''response'', ''path'']) (\<lambda>hr.
     Inr \<lparr>kind = HttpJsonAdapter, adapter_address = addr, access_key = key,
          latest_endpoint_path = lp, latest_endpoint_args = la, latest_response_path = lr,
          historical_endpoint_path = hp, historical_endpoint_args = ha,
          historical_response_path = hr\<rparr>)))))))"

definition new_FileJsonAdapter :: "string \<Rightarrow> pyval \<Rightarrow> error + adapter" where
  "new_FileJsonAdapter addr provider_config =
     bind_err (py_getitem provider_config ''auth'') (\<lambda>auth.
     bind_err (py_get auth ''access_key'' (PStr [])) (\<lambda>key.
     bind_err (py_path provider_config [''endpoints'', ''latest'', ''request'', ''path'']) (\<lambda>lp.
     bind_err (py_path provider_config [''endpoints'', ''latest'', ''request'']) (\<lambda>la.
     bind_err (py_path provider_config [''endpoints'', ''latest'', ''response'', ''path'']) (\<lambda>lr.
     bind_err (py_path provider_config [''endpoints'', ''historical'', ''request'', ''path'']) (\<lambda>hp.
     bind_err (py_path provider_config [''endpoints'', ''historical'']) (\<lambda>ha.
     bind_err (py_path provider_config [''endpoints'', ''historical'', ''response'', ''path'']) (\<lambda>hr.
     Inr \<lparr>kind = FileJsonAdapter, adapter_address = addr, access_key = key,
          latest_endpoint_path = lp, latest_endpoint_args = la, latest_response_path = lr,
          historical_endpoint_path = hp, historical_endpoint_args = ha,
          historical_response_path = hr\<rparr>))))))))"

text \<open>
  \<^verbatim>\<open>Decimal(v)\<close>: a number as it is, a string through \<open>decimal_of_str\<close>
  (\<^verbatim>\<open>InvalidOperation\<close> where it does not read as one), a JSON array a
  \<^verbatim>\<open>ValueError\<close>, anything else a \<^verbatim>\<open>TypeError\<close>.
\<close>

fun to_decimal :: "world \<Rightarrow> pyval \<Rightarrow> error + pyval" where
  "to_decimal w (PNum r) = Inr (PNum r)"
| "to_decimal w (PStr s) =
     (case decimal_of_str w s of None \<Rightarrow> Inl InvalidOperation | Some r \<Rightarrow> Inr (PNum r))"
| "to_decimal w (PList xs) = Inl ValueError"
| "to_decimal w v = Inl TypeError"

text \<open>
  \<^verbatim>\<open>valuation_date.strftime("%Y-%m-%d")\<close> and
  \<^verbatim>\<open>path.replace("$date", str_date)\<close>.
\<close>

definition digit :: "int \<Rightarrow> char" where
  "digit n = ''0123456789'' ! nat (n mod 10)"

fun strftime :: "date \<Rightarrow> string" where
  "strftime (y, m, d) =
     [digit (y div 1000), digit (y div 100), digit (y div 10), digit y] @ ''-'' @
     [digit (m div 10), digit m] @ ''-'' @ [digit (d div 10), digit d]"

fun replace_date :: "string \<Rightarrow> string \<Rightarrow> string" where
  "replace_date str_date [] = []"
| "replace_date str_date (c # cs) =
     (if take 5 (c # cs) = ''$date'' then str_date @ replace_date str_date (drop 4 cs)
      else c # replace_date str_date cs)"

text \<open>
  The request parameters \<^verbatim>\<open>{"access_key": ..., args["source_currency_code"]: ...,
  args["exchanged_currency_code"]: ...}\<close>: both keys are looked up before the dictionary
  is built, and a key that is a list or a dictionary is unhashable.
\<close>

fun hashable :: "pyval \<Rightarrow> bool" where
  "hashable (PList xs) = False"
| "hashable (PDict kv) = False"
| "hashable v = True"

definition payload :: "adapter \<Rightarrow> pyval \<Rightarrow> string \<Rightarrow> string \<Rightarrow> error + (pyval \<times> pyval) list" where
  "payload a args source_currency_code exchanged_currency_code =
     bind_err (py_getitem args ''source_currency_code'') (\<lambda>k1.
     bind_err (py_getitem args ''exchanged_currency_code'') (\<lambda>k2.
     if hashable k1 \<and> hashable k2
     then Inr (AList.update k2 (PStr exchanged_currency_code)
                (AList.update k1 (PStr source_currency_code)
                  [(PStr ''access_key'', access_key a)]))
     else Inl TypeError))"

text \<open>
  \<^verbatim>\<open>response.get(path, None)\<close>: the keys of a JSON object are strings, so a path
  that is not a string finds nothing.
\<close>

fun response_get :: "pyval \<Rightarrow> pyval \<Rightarrow> error + pyval" where
  "response_get response (PStr k) = py_get response k PNone"
| "response_get (PDict kv) k = (if hashable k then Inr PNone else Inl TypeError)"
| "response_get response k = Inl AttributeError"

text \<open>\<^verbatim>\<open>HttpJsonAdapter.get_latest_rate\<close>, lines 248--284 of the adapter file.\<close>

definition http_get_latest_rate :: "world \<Rightarrow> adapter \<Rightarrow> string \<Rightarrow> string \<Rightarrow> error + pyval" where
  "http_get_latest_rate w a source_currency_code exchanged_currency_code =
     (case latest_endpoint_path a of
        PStr path \<Rightarrow>
          bind_err (payload a (latest_endpoint_args a) source_currency_code exchanged_currency_code)
            (\<lambda>pl.
          bind_err (response_get (http_get w (adapter_address a @ path) pl) (latest_response_path a))
            (\<lambda>rates.
          if \<not> truthy rates then Inl ProviderError
          else if CHR '','' \<in> set exchanged_currency_code then Inr rates
          else bind_err (py_getitem rates exchanged_currency_code) (to_decimal w)))
      | _ \<Rightarrow> Inl TypeError)"

text \<open>\<^verbatim>\<open>HttpJsonAdapter.get_historical_rates\<close>, lines 286--331.\<close>

definition http_get_historical_rates ::
    "world \<Rightarrow> adapter \<Rightarrow> string \<Rightarrow> string \<Rightarrow> date \<Rightarrow> error + pyval" where
  "http_get_historical_rates w a source_currency_code exchanged_currency_code valuation_date =
     (case historical_endpoint_path a of
        PStr path \<Rightarrow>
          bind_err (payload a (historical_endpoint_args a) source_currency_code
                      exchanged_currency_code) (\<lambda>pl.
          bind_err (response_get
                      (http_get w (adapter_address a @ replace_date (strftime valuation_date) path) pl)
                      (historical_response_path a)) (\<lambda>rates.
          if \<not> truthy rates then Inl ProviderError else Inr rates))
      | _ \<Rightarrow> Inl AttributeError)"

text \<open>
  Iterating a parsed document: a list gives its elements, a dictionary its keys, a
  string its characters; nothing else is iterable.
\<close>

fun py_iter :: "pyval \<Rightarrow> error + pyval list" where
  "py_iter (PList xs) = Inr xs"
| "py_iter (PDict kv) = Inr (map (\<lambda>p. PStr (fst p)) kv)"
| "py_iter (PStr s) = Inr (map (\<lambda>c. PStr [c]) s)"
| "py_iter v = Inl TypeError"

text \<open>
  \<^verbatim>\<open>next(item["rates"] for item in data if item["base"] == source_currency_code)\<close>;
  \<open>None\<close> is \<^verbatim>\<open>StopIteration\<close>.
\<close>

fun first_rates :: "string \<Rightarrow> pyval list \<Rightarrow> error + pyval option" where
  "first_rates source_currency_code [] = Inr None"
| "first_rates source_currency_code (item # items) =
     (case py_getitem item ''base'' of
        Inl e \<Rightarrow> Inl e
      | Inr b \<Rightarrow>
          if b = PStr source_currency_code
          then (case py_getitem item ''rates'' of Inl e \<Rightarrow> Inl e | Inr r \<Rightarrow> Inr (Some r))
          else first_rates source_currency_code items)"

text \<open>\<^verbatim>\<open>FileJsonAdapter.get_latest_rate\<close>, lines 98--128.\<close>

definition file_get_latest_rate :: "world \<Rightarrow> adapter \<Rightarrow> string \<Rightarrow> string \<Rightarrow> error + pyval" where
  "file_get_latest_rate w a source_currency_code exchanged_currency_code =
     (case latest_endpoint_path a of
        PStr path \<Rightarrow>
          bind_err (py_iter (file_json w (adapter_address a) path)) (\<lambda>items.
          bind_err (first_rates source_currency_code items) (\<lambda>found.
          case found of
            None \<Rightarrow> Inl ProviderError
          | Some rates \<Rightarrow> bind_err (py_getitem rates exchanged_currency_code) (to_decimal w)))
      | _ \<Rightarrow> Inl TypeError)"

text \<open>
  \<^verbatim>\<open>next(item for item in response if item["date"] == str_date and item["base"] ==
  source_currency_code)\<close>, and \<^verbatim>\<open>FileJsonAdapter.get_historical_rates\<close>, lines
  130--167, which returns the whole record found, or \<^verbatim>\<open>None\<close>.
\<close>

fun first_dated :: "string \<Rightarrow> string \<Rightarrow> pyval list \<Rightarrow> error + pyval option" where
  "first_dated str_date source_currency_code [] = Inr None"
| "first_dated str_date source_currency_code (item # items) =
     (case py_getitem item ''date'' of
        Inl e \<Rightarrow> Inl e
      | Inr d \<Rightarrow>
          if d = PStr str_date
          then (case py_getitem item ''base'' of
                  Inl e \<Rightarrow> Inl e
                | Inr b \<Rightarrow>
                    if b = PStr source_currency_code then Inr (Some item)
                    else first_dated str_date source_currency_code items)
          else first_dated str_date source_currency_code items)"

definition file_get_historical_rates ::
    "world \<Rightarrow> adapter \<Rightarrow> string \<Rightarrow> string \<Rightarrow> date \<Rightarrow> error + pyval" where
  "file_get_historical_rates w a source_currency_code exchanged_currency_code valuation_date =
     (case historical_endpoint_path a of
        PStr path \<Rightarrow>
          bind_err (py_iter (file_json w (adapter_address a) path)) (\<lambda>items.
          bind_err (first_dated (strftime valuation_date) source_currency_code items) (\<lambda>found.
          case found of None \<Rightarrow> Inr PNone | Some date_rates \<Rightarrow> Inr date_rates))
      | _ \<Rightarrow> Inl TypeError)"

text \<open>Method dispatch on the adapter's class.\<close>

definition get_latest_rate :: "world \<Rightarrow> adapter \<Rightarrow> string \<Rightarrow> string \<Rightarrow> error + pyval" where
  "get_latest_rate w a source_currency_code exchanged_currency_code =
     (case kind a of
        HttpJsonAdapter \<Rightarrow> http_get_latest_rate w a source_currency_code exchanged_currency_code
      | FileJsonAdapter \<Rightarrow> file_get_latest_rate w a source_currency_code exchanged_currency_code)"

definition get_historical_rates ::
    "world \<Rightarrow> adapter \<Rightarrow> string \<Rightarrow> string \<Rightarrow> date \<Rightarrow> error + pyval" where
  "get_historical_rates w a source_currency_code exchanged_currency_code valuation_date =
     (case kind a of
        HttpJsonAdapter \<Rightarrow>
          http_get_historical_rates w a source_currency_code exchanged_currency_code valuation_date
      | FileJsonAdapter \<Rightarrow>
          file_get_historical_rates w a source_currency_code exchanged_currency_code valuation_date)"


section \<open>The provider orchestrator\<close>

text \<open>
  A row of the \<^verbatim>\<open>Provider\<close> table. \<^verbatim>\<open>force_base_currency\<close> is nullable;
  \<^verbatim>\<open>provider.force_base_currency and ...\<close> treats the empty string as unset too.
\<close>

record provider =
  name :: string
  priority :: int
  address :: string
  config :: pyval
  resource_type :: string
  force_base_currency :: "string option"

definition forced_base :: "provider \<Rightarrow> string \<Rightarrow> string option" where
  "forced_base p source_currency_code =
     (case force_base_currency p of
        None \<Rightarrow> None
      | Some b \<Rightarrow> if b \<noteq> [] \<and> b \<noteq> source_currency_code then Some b else None)"

text \<open>
  The first statement of both \<^verbatim>\<open>get_latest_from_provider\<close> and
  \<^verbatim>\<open>get_hist_from_provider\<close>: the adapter for the provider's
  \<^verbatim>\<open>resource_type\<close>, or \<^verbatim>\<open>ValueError\<close>.
\<close>

definition select_adapter :: "provider \<Rightarrow> error + adapter" where
  "select_adapter p =
     (if resource_type p = ''http'' then new_HttpJsonAdapter (address p) (config p)
      else if resource_type p = ''json'' then new_FileJsonAdapter (address p) (config p)
      else Inl ValueError)"

definition compound :: "string \<Rightarrow> string \<Rightarrow> string" where
  "compound exchanged_currency_code source_currency_code =
     exchanged_currency_code @ '','' @ source_currency_code"

text \<open>\<^verbatim>\<open>get_latest_from_provider\<close>, lines 146--191 of \<^verbatim>\<open>services.py\<close>.\<close>

definition get_latest_from_provider :: "world \<Rightarrow> provider \<Rightarrow> string \<Rightarrow> string \<Rightarrow> error + pyval" where
  "get_latest_from_provider w p source_currency_code exchanged_currency_code =
     bind_err (select_adapter p) (\<lambda>a.
     case forced_base p source_currency_code of
       Some base \<Rightarrow>
         bind_err (get_latest_rate w a base
                     (compound exchanged_currency_code source_currency_code)) (\<lambda>raw_data.
         bind_err (py_getitem raw_data source_currency_code) (\<lambda>x.
         bind_err (py_getitem raw_data exchanged_currency_code) (\<lambda>y.
         bind_err (float_div x y) (\<lambda>q. Inr (PNum q)))))
     | None \<Rightarrow> get_latest_rate w a source_currency_code exchanged_currency_code)"

text \<open>
  \<^verbatim>\<open>Provider.objects.order_by("priority")\<close>; rows of equal priority are kept in
  table order.
\<close>

definition order_by_priority :: "provider list \<Rightarrow> provider list" where
  "order_by_priority providers = sort_key priority providers"

text \<open>
  The loop of \<^verbatim>\<open>fetch_latest_rates_from_provider\<close>, lines 215--227. \<open>data\<close> is the
  variable of that name: it keeps the last value a provider returned, a falsy one
  included; \<^verbatim>\<open>ProviderError\<close> alone is caught.
\<close>

fun latest_loop :: "world \<Rightarrow> string \<Rightarrow> string \<Rightarrow> pyval \<Rightarrow> provider list \<Rightarrow> error + pyval" where
  "latest_loop w source_currency_code exchanged_currency_code data [] = Inr data"
| "latest_loop w source_currency_code exchanged_currency_code data (p # providers) =
     (case get_latest_from_provider w p source_currency_code exchanged_currency_code of
        Inl e \<Rightarrow>
          if e = ProviderError
          then latest_loop w source_currency_code exchanged_currency_code data providers
          else Inl e
      | Inr v \<Rightarrow>
          if truthy v then Inr v
          else latest_loop w source_currency_code exchanged_currency_code v providers)"

definition fetch_latest_rates_from_provider ::
    "world \<Rightarrow> provider list \<Rightarrow> string \<Rightarrow> string \<Rightarrow> error + pyval" where
  "fetch_latest_rates_from_provider w providers source_currency_code exchanged_currency_code =
     latest_loop w source_currency_code exchanged_currency_code PNone (order_by_priority providers)"

text \<open>
  \<^verbatim>\<open>reverse_rates\<close>, lines 230--254. The comprehension divides each entry other
  than \<^verbatim>\<open>source_currency_code\<close>'s by \<^verbatim>\<open>base_rate\<close>, in the order of the
  dictionary; the values come from parsed JSON, so the division is the float one.
\<close>

fun reverse_items ::
    "string \<Rightarrow> pyval \<Rightarrow> (string \<times> pyval) list \<Rightarrow> (string \<times> pyval) list \<Rightarrow>
     error + (string \<times> pyval) list" where
  "reverse_items source_currency_code base_rate [] reversed_data = Inr reversed_data"
| "reverse_items source_currency_code base_rate ((c, r) # items) reversed_data =
     (if c \<noteq> source_currency_code
      then (case float_div r base_rate of
              Inl e \<Rightarrow> Inl e
            | Inr q \<Rightarrow>
                reverse_items source_currency_code base_rate items
                  (AList.update c (PNum (round6 q)) reversed_data))
      else reverse_items source_currency_code base_rate items reversed_data)"

fun reverse_rates :: "string \<Rightarrow> pyval \<Rightarrow> error + pyval" where
  "reverse_rates source_currency_code (PDict kv) =
     (case map_of kv source_currency_code of
        None \<Rightarrow> Inr (PDict [])
      | Some base_rate \<Rightarrow>
          (case reverse_items source_currency_code base_rate kv [] of
             Inl e \<Rightarrow> Inl e
           | Inr reversed_data \<Rightarrow> Inr (PDict reversed_data)))"
| "reverse_rates source_currency_code v = Inl TypeError"

text \<open>\<^verbatim>\<open>get_hist_from_provider\<close>, lines 257--307.\<close>

definition get_hist_from_provider ::
    "world \<Rightarrow> provider \<Rightarrow> string \<Rightarrow> string \<Rightarrow> date \<Rightarrow> error + pyval" where
  "get_hist_from_provider w p source_currency_code exchanged_currency_code valuation_date =
     bind_err (select_adapter p) (\<lambda>a.
     case forced_base p source_currency_code of
       Some base \<Rightarrow>
         bind_err (get_historical_rates w a base
                     (compound exchanged_currency_code source_currency_code) valuation_date)
           (reverse_rates source_currency_code)
     | None \<Rightarrow>
         get_historical_rates w a source_currency_code exchanged_currency_code valuation_date)"

fun hist_loop ::
    "world \<Rightarrow> string \<Rightarrow> string \<Rightarrow> date \<Rightarrow> pyval \<Rightarrow> provider list \<Rightarrow> error + pyval" where
  "hist_loop w source_currency_code exchanged_currency_code valuation_date data [] = Inr data"
| "hist_loop w source_currency_code exchanged_currency_code valuation_date data (p # providers) =
     (case get_hist_from_provider w p source_currency_code exchanged_currency_code valuation_date of
        Inl e \<Rightarrow>
          if e = ProviderError
          then hist_loop w source_currency_code exchanged_currency_code valuation_date data providers
          else Inl e
      | Inr v \<Rightarrow>
          if truthy v then Inr v
          else hist_loop w source_currency_code exchanged_currency_code valuation_date v providers)"

section \<open>The rate store\<close>

text \<open>
  A row of \<^verbatim>\<open>CurrencyExchangeRate\<close>, with the two currencies by their codes (the
  foreign keys are resolved through the \<^verbatim>\<open>Currency\<close> table, whose codes are
  unique). The store is the list of rows in insertion order. The quantisation of
  \<^verbatim>\<open>rate_value\<close> to six places by the database is not modelled.
\<close>

record exchange_rate =
  source_currency :: string
  exchanged_currency :: string
  valuation_date :: date
  rate_value :: rat

text \<open>
  What the store accepts as a \<^verbatim>\<open>rate_value\<close>: a number, or a string that reads
  as one. \<open>StoreError\<close> stands for its rejection of anything else (the field's
  validation error, or the database's).
\<close>

fun db_rate :: "world \<Rightarrow> pyval \<Rightarrow> error + rat" where
  "db_rate w (PNum r) = Inr r"
| "db_rate w (PStr s) = (case decimal_of_str w s of None \<Rightarrow> Inl StoreError | Some r \<Rightarrow> Inr r)"
| "db_rate w v = Inl StoreError"

text \<open>\<^verbatim>\<open>"rates" in data\<close>.\<close>

fun is_substring :: "string \<Rightarrow> string \<Rightarrow> bool" where
  "is_substring k [] = (k = [])"
| "is_substring k (c # cs) = (take (length k) (c # cs) = k \<or> is_substring k cs)"

fun py_contains :: "string \<Rightarrow> pyval \<Rightarrow> error + bool" where
  "py_contains k (PDict kv) = Inr (map_of kv k \<noteq> None)"
| "py_contains k (PList xs) = Inr (PStr k \<in> set xs)"
| "py_contains k (PStr s) = Inr (is_substring k s)"
| "py_contains k v = Inl TypeError"

text \<open>\<^verbatim>\<open>data["rates"].items()\<close>: only a dictionary has the method.\<close>

fun py_items :: "pyval \<Rightarrow> error + (string \<times> pyval) list" where
  "py_items (PDict kv) = Inr kv"
| "py_items v = Inl AttributeError"

text \<open>
  The list comprehension of lines 358--366: one row per symbol, each after the lookups
  \<^verbatim>\<open>currencies[source_currency_code]\<close> and \<^verbatim>\<open>currencies[symbol]\<close>.
  \<^verbatim>\<open>bulk_create\<close> then hands the rows to the store, which checks the rate values.
\<close>

fun creates ::
    "(string \<times> nat) list \<Rightarrow> string \<Rightarrow> date \<Rightarrow> (string \<times> pyval) list \<Rightarrow>
     error + (string \<times> pyval) list" where
  "creates currencies source_currency_code d [] = Inr []"
| "creates currencies source_currency_code d ((symbol, rate) # items) =
     (if map_of currencies source_currency_code = None \<or> map_of currencies symbol = None
      then Inl KeyError
      else (case creates currencies source_currency_code d items of
              Inl e \<Rightarrow> Inl e
            | Inr rows \<Rightarrow> Inr ((symbol, rate) # rows)))"

fun bulk_create ::
    "world \<Rightarrow> string \<Rightarrow> date \<Rightarrow> (string \<times> pyval) list \<Rightarrow> error + exchange_rate list" where
  "bulk_create w source_currency_code d [] = Inr []"
| "bulk_create w source_currency_code d ((symbol, rate) # items) =
     (case db_rate w rate of
        Inl e \<Rightarrow> Inl e
      | Inr r \<Rightarrow>
          (case bulk_create w source_currency_code d items of
             Inl e \<Rightarrow> Inl e
           | Inr rows \<Rightarrow>
               Inr (\<lparr>source_currency = source_currency_code, exchanged_currency = symbol,
                     valuation_date = d, rate_value = r\<rparr> # rows)))"

text \<open>
  The block under \<^verbatim>\<open>if data is not None:\<close>, lines 352--374: it runs for every
  value but \<^verbatim>\<open>None\<close>, an empty dictionary included.
\<close>

definition persist ::
    "world \<Rightarrow> (string \<times> nat) list \<Rightarrow> exchange_rate list \<Rightarrow> string \<Rightarrow> string \<Rightarrow> date \<Rightarrow> pyval \<Rightarrow>
     error + exchange_rate list" where
  "persist w currencies store source_currency_code exchanged_currency_code d data =
     (if data = PNone then Inr store
      else
        bind_err (py_contains ''rates'' data) (\<lambda>has_rates.
        if has_rates
        then
          bind_err (py_getitem data ''rates'') (\<lambda>rates.
          bind_err (py_items rates) (\<lambda>items.
          bind_err (creates currencies source_currency_code d items) (\<lambda>cs.
          bind_err (bulk_create w source_currency_code d cs) (\<lambda>rows. Inr (store @ rows)))))
        else
          if map_of currencies source_currency_code = None
             \<or> map_of currencies exchanged_currency_code = None
          then Inl KeyError
          else
            bind_err (py_getitem data exchanged_currency_code) (\<lambda>rate.
            bind_err (db_rate w rate) (\<lambda>r.
            Inr (store @ [\<lparr>source_currency = source_currency_code,
                            exchanged_currency = exchanged_currency_code,
                            valuation_date = d, rate_value = r\<rparr>])))))"

text \<open>
  \<^verbatim>\<open>fetch_historical_rates_from_provider\<close>, lines 310--376: the value returned and
  the store after the call.
\<close>

definition fetch_historical_rates_from_provider ::
    "world \<Rightarrow> (string \<times> nat) list \<Rightarrow> exchange_rate list \<Rightarrow> provider list \<Rightarrow>
     string \<Rightarrow> string \<Rightarrow> date \<Rightarrow> error + pyval \<times> exchange_rate list" where
  "fetch_historical_rates_from_provider w currencies store providers source_currency_code
       exchanged_currency_code d =
     bind_err (hist_loop w source_currency_code exchanged_currency_code d PNone
                 (order_by_priority providers)) (\<lambda>data.
     bind_err (persist w currencies store source_currency_code exchanged_currency_code
                 d data) (\<lambda>store'. Inr (data, store')))"


section \<open>The period aggregator\<close>

text \<open>
  Dates are compared through \<open>date_key\<close>, which orders calendar dates as the
  calendar does. \<^verbatim>\<open>get_db_rates\<close>, lines 18--46: for \<^verbatim>\<open>"EUR"\<close> the rows of
  that pair in the range, otherwise every row in the range; the model's
  \<^verbatim>\<open>Meta.ordering\<close> sorts the result by \<^verbatim>\<open>valuation_date\<close>.
\<close>

fun date_key :: "date \<Rightarrow> int" where
  "date_key (y, m, d) = y * 10000 + m * 100 + d"

definition in_range :: "date \<Rightarrow> date \<Rightarrow> exchange_rate \<Rightarrow> bool" where
  "in_range date_from date_to r =
     (date_key date_from \<le> date_key (valuation_date r)
      \<and> date_key (valuation_date r) \<le> date_key date_to)"

definition get_db_rates ::
    "exchange_rate list \<Rightarrow> string \<Rightarrow> string \<Rightarrow> date \<Rightarrow> date \<Rightarrow> exchange_rate list" where
  "get_db_rates store source_currency_code exchanged_currency_code date_from date_to =
     sort_key (\<lambda>r. date_key (valuation_date r))
       (if source_currency_code = ''EUR''
        then filter (\<lambda>r. source_currency r = source_currency_code
                         \<and> exchanged_currency r = exchanged_currency_code
                         \<and> in_range date_from date_to r) store
        else filter (in_range date_from date_to) store)"

text \<open>
  \<^verbatim>\<open>rates_grouped_by_date[row["valuation_date"]].append(row)\<close>: a
  \<^verbatim>\<open>defaultdict\<close> of lists, the dates in the order of their first row.
\<close>

fun add_to_group ::
    "exchange_rate \<Rightarrow> (date \<times> exchange_rate list) list \<Rightarrow> (date \<times> exchange_rate list) list" where
  "add_to_group row [] = [(valuation_date row, [row])]"
| "add_to_group row ((d, rates) # groups) =
     (if d = valuation_date row then (d, rates @ [row]) # groups
      else (d, rates) # add_to_group row groups)"

definition rates_grouped_by_date ::
    "exchange_rate list \<Rightarrow> (date \<times> exchange_rate list) list" where
  "rates_grouped_by_date db_rates = foldl (\<lambda>groups row. add_to_group row groups) [] db_rates"

text \<open>
  The two dictionary comprehensions of \<^verbatim>\<open>process_db_rates\<close>, lines 76--79 and
  96--103. The stored rates are \<^verbatim>\<open>Decimal\<close>s, so the division is the decimal one.
\<close>

definition eur_rates :: "exchange_rate list \<Rightarrow> (string \<times> pyval) list" where
  "eur_rates rates =
     foldl (\<lambda>acc r. AList.update (exchanged_currency r) (PNum (rate_value r)) acc) [] rates"

fun processed_rates ::
    "exchange_rate \<Rightarrow> exchange_rate list \<Rightarrow> (string \<times> pyval) list \<Rightarrow>
     error + (string \<times> pyval) list" where
  "processed_rates base_rate [] acc = Inr acc"
| "processed_rates base_rate (r # rates) acc =
     (if exchanged_currency r \<noteq> exchanged_currency base_rate
      then (case dec_div (PNum (rate_value r)) (PNum (rate_value base_rate)) of
              Inl e \<Rightarrow> Inl e
            | Inr q \<Rightarrow>
                processed_rates base_rate rates
                  (AList.update (exchanged_currency r) (PNum (round6 q)) acc))
      else processed_rates base_rate rates acc)"

text \<open>
  The body of the loop over the groups, lines 70--110: \<^verbatim>\<open>base_rate\<close> is the first
  row of the group whose exchanged currency is \<^verbatim>\<open>source_currency_code\<close>, and the
  synthesized \<^verbatim>\<open>"EUR"\<close> entry is merged in last, over an entry of that key.
\<close>

definition process_group :: "string \<Rightarrow> date \<times> exchange_rate list \<Rightarrow> error + pyval" where
  "process_group source_currency_code grp =
     (if source_currency_code = ''EUR''
      then Inr (PDict [(''date'', PStr (strftime (fst grp))),
                       (''rates'', PDict (eur_rates (snd grp)))])
      else
        (case find (\<lambda>item. exchanged_currency item = source_currency_code) (snd grp) of
           None \<Rightarrow> Inl ValueError
         | Some base_rate \<Rightarrow>
             bind_err (processed_rates base_rate (snd grp) []) (\<lambda>pr.
             bind_err (dec_div (PNum 1) (PNum (rate_value base_rate))) (\<lambda>inv.
             Inr (PDict [(''date'', PDate (fst grp)),
                         (''rates'', PDict (AList.update ''EUR'' (PNum (round6 inv)) pr))])))))"

fun process_groups :: "string \<Rightarrow> (date \<times> exchange_rate list) list \<Rightarrow> error + pyval list" where
  "process_groups source_currency_code [] = Inr []"
| "process_groups source_currency_code (grp # groups) =
     (case process_group source_currency_code grp of
        Inl e \<Rightarrow> Inl e
      | Inr x \<Rightarrow>
          (case process_groups source_currency_code groups of
             Inl e \<Rightarrow> Inl e
           | Inr xs \<Rightarrow> Inr (x # xs)))"

definition process_db_rates :: "exchange_rate list \<Rightarrow> string \<Rightarrow> string \<Rightarrow> error + pyval list" where
  "process_db_rates db_rates source_currency_code exchanged_currency_code =
     process_groups source_currency_code (rates_grouped_by_date db_rates)"

text \<open>\<^verbatim>\<open>get_currency_rates_for_period\<close>, lines 115--143.\<close>

definition get_currency_rates_for_period ::
    "exchange_rate list \<Rightarrow> string \<Rightarrow> string \<Rightarrow> date \<Rightarrow> date \<Rightarrow> error + pyval list" where
  "get_currency_rates_for_period store source_currency_code exchanged_currency_code
       date_from date_to =
     (let db_rates = get_db_rates store source_currency_code exchanged_currency_code
                       date_from date_to
      in if db_rates \<noteq> []
         then process_db_rates db_rates source_currency_code exchanged_currency_code
         else Inr [])"

text \<open>
  \<^verbatim>\<open>get_weighted_ror\<close>, lines 379--426; \<open>today\<close> is the day of the call. When the
  store gives nothing the source enters its back-fill loop, whose condition
  \<^verbatim>\<open>dt <= today\<close> compares \<^verbatim>\<open>start_date\<close>, a \<^verbatim>\<open>datetime\<close>, with
  \<^verbatim>\<open>today\<close>, which line 401 made a string with \<^verbatim>\<open>strftime\<close>: the comparison
  raises \<^verbatim>\<open>TypeError\<close> before any provider is asked.
\<close>

definition get_weighted_ror ::
    "exchange_rate list \<Rightarrow> date \<Rightarrow> string \<Rightarrow> string \<Rightarrow> rat \<Rightarrow> date \<Rightarrow> error + pyval" where
  "get_weighted_ror store today source_currency_code exchanged_currency_code amount start_date =
     bind_err (get_currency_rates_for_period store source_currency_code
                 exchanged_currency_code start_date today) (\<lambda>historical_rates.
     if historical_rates = [] then Inl TypeError
     else
       bind_err (calculate_twrr historical_rates amount) (\<lambda>twrrs.
       Inr (PDict [(''base'', PStr source_currency_code),
                   (''exchanged'', PStr exchanged_currency_code),
                   (''amount'', PNum amount),
                   (''start_date'', PDate start_date),
                   (''twrr'', PList twrrs)])))"


section \<open>Inputs and predicates of the statements\<close>

text \<open>
  The two provider rows that the repository's API tests create
  (\<^verbatim>\<open>tests/test_apis.py\<close>), with the priority and the forced base left open, a
  provider of the declared but unimplemented type \<^verbatim>\<open>csv\<close>, and worlds that answer
  given requests: an HTTP route is the URL with the \<^verbatim>\<open>base\<close> and \<^verbatim>\<open>symbols\<close>
  parameters it expects and the JSON body it replies; any other request gets an empty
  object. They are the inputs at which the theorems below are instantiated.
\<close>

definition http_args :: pyval where
  "http_args =
     PDict [(''access_key'', PStr ''access_key''),
            (''source_currency_code'', PStr ''base''),
            (''exchanged_currency_code'', PStr ''symbols'')]"

definition json_args :: pyval where
  "json_args =
     PDict [(''source_currency_code'', PStr ''base''),
            (''exchanged_currency_code'', PStr ''symbols'')]"

definition http_endpoint :: "string \<Rightarrow> pyval" where
  "http_endpoint path =
     PDict [(''request'', PDict [(''args'', http_args), (''path'', PStr path)]),
            (''response'', PDict [(''path'', PStr ''rates'')])]"

definition json_endpoint :: "string \<Rightarrow> pyval" where
  "json_endpoint path =
     PDict [(''request'', PDict [(''path'', PStr path), (''args'', json_args)]),
            (''response'', PDict [(''path'', PStr ''rates'')])]"

definition http_config :: pyval where
  "http_config =
     PDict [(''auth'', PDict [(''type'', PStr ''query_param''), (''access_key'', PStr [])]),
            (''domain'', PStr ''http://data.fixer.io/api/''),
            (''endpoints'', PDict [(''latest'', http_endpoint ''latest''),
                                   (''historical'', http_endpoint ''$date'')])]"

definition json_config :: pyval where
  "json_config =
     PDict [(''auth'', PDict []),
            (''endpoints'', PDict [(''latest'', json_endpoint ''mock_latest.json''),
                                   (''historical'', json_endpoint ''mock_historical.json'')])]"

definition http_provider :: "int \<Rightarrow> string option \<Rightarrow> provider" where
  "http_provider prio base =
     \<lparr>name = ''Test HTTP Provider'', priority = prio, address = ''http://data.fixer.io/api/'',
      config = http_config, resource_type = ''http'', force_base_currency = base\<rparr>"

definition json_provider :: "int \<Rightarrow> string option \<Rightarrow> provider" where
  "json_provider prio base =
     \<lparr>name = ''Test JSON Provider'', priority = prio, address = ''assets/'',
      config = json_config, resource_type = ''json'', force_base_currency = base\<rparr>"

definition csv_provider :: "int \<Rightarrow> provider" where
  "csv_provider prio =
     \<lparr>name = ''CSV Provider'', priority = prio, address = ''assets/'',
      config = json_config, resource_type = ''csv'', force_base_currency = None\<rparr>"

fun route_matches :: "string \<Rightarrow> (pyval \<times> pyval) list \<Rightarrow> string \<times> string \<times> string \<times> pyval \<Rightarrow> bool" where
  "route_matches u pl (url, base, symbols, body) =
     (u = url \<and> map_of pl (PStr ''base'') = Some (PStr base)
      \<and> map_of pl (PStr ''symbols'') = Some (PStr symbols))"

definition serving :: "(string \<times> string \<times> string \<times> pyval) list \<Rightarrow> pyval \<Rightarrow> world" where
  "serving routes doc =
     \<lparr>http_get = (\<lambda>u pl. case find (route_matches u pl) routes of
                            None \<Rightarrow> PDict []
                          | Some r \<Rightarrow> snd (snd (snd r))),
      file_json = (\<lambda>a p. doc),
      decimal_of_str = (\<lambda>s. None)\<rparr>"

definition rates_body :: "(string \<times> rat) list \<Rightarrow> pyval" where
  "rates_body rs = PDict [(''rates'', PDict (map (\<lambda>p. (fst p, PNum (snd p))) rs))]"

text \<open>
  What decides the orchestrator's loop about one provider: \<open>skipped\<close>, when it raised
  \<^verbatim>\<open>ProviderError\<close> or returned a falsy value; \<open>no_data\<close>, when it raised
  \<^verbatim>\<open>ProviderError\<close> or returned \<^verbatim>\<open>None\<close>.
\<close>

definition skipped :: "error + pyval \<Rightarrow> bool" where
  "skipped res = (case res of Inl e \<Rightarrow> e = ProviderError | Inr v \<Rightarrow> \<not> truthy v)"


definition eur_gbp_world :: world where
  "eur_gbp_world =
     serving [(''http://data.fixer.io/api/latest'', ''EUR'', ''GBP'', rates_body [(''GBP'', 9 / 10)]),
              (''http://data.fixer.io/api/2024-01-25'', ''EUR'', ''GBP'',
               rates_body [(''GBP'', 9 / 10)])]
       (PList [])"





definition http_adapter :: adapter where
  "http_adapter =
     \<lparr>kind = HttpJsonAdapter, adapter_address = ''http://data.fixer.io/api/'',
      access_key = PStr [],
      latest_endpoint_path = PStr ''latest'',
      latest_endpoint_args = http_args,
      latest_response_path = PStr ''rates'',
      historical_endpoint_path = PStr ''$date'',
      historical_endpoint_args = http_args,
      historical_response_path = PStr ''rates''\<rparr>"


text \<open>
  Stored rows and stores. \<open>last_rate c rates\<close> is the last row of a group whose
  exchanged currency is \<open>c\<close>, the one whose entry a dictionary comprehension keeps;
  \<open>rate_map\<close> is the shape of one result of the aggregator for a non-EUR source.
\<close>

definition stored :: "string \<Rightarrow> string \<Rightarrow> date \<Rightarrow> rat \<Rightarrow> exchange_rate" where
  "stored src exch d r =
     \<lparr>source_currency = src, exchanged_currency = exch, valuation_date = d, rate_value = r\<rparr>"

definition last_rate :: "string \<Rightarrow> exchange_rate list \<Rightarrow> exchange_rate option" where
  "last_rate c rates = find (\<lambda>r. exchanged_currency r = c) (rev rates)"

definition rate_map :: "date \<Rightarrow> (string \<times> pyval) list \<Rightarrow> pyval" where
  "rate_map d m = PDict [(''date'', PDate d), (''rates'', PDict m)]"

definition gap_store :: "exchange_rate list" where
  "gap_store =
     [stored ''EUR'' ''USD'' (2024, 1, 23) 2, stored ''EUR'' ''GBP'' (2024, 1, 23) 4,
      stored ''EUR'' ''GBP'' (2024, 1, 24) 3]"

definition eur_store :: "exchange_rate list" where
  "eur_store = [stored ''EUR'' ''USD'' (2024, 1, 23) 2, stored ''EUR'' ''GBP'' (2024, 1, 23) 4]"

definition mixed_store :: "exchange_rate list" where
  "mixed_store = [stored ''EUR'' ''USD'' (2024, 1, 23) 2, stored ''USD'' ''EUR'' (2024, 1, 23) 4]"

definition usd_eur_store :: "exchange_rate list" where
  "usd_eur_store =
     [stored ''USD'' ''EUR'' (2024, 1, 23) 1,
      stored ''USD'' ''EUR'' (2024, 1, 24) (900611 / 1000000)]"

definition usd_based_store :: "exchange_rate list" where
  "usd_based_store =
     [stored ''EUR'' ''USD'' (2024, 1, 23) (1084776 / 1000000),
      stored ''EUR'' ''USD'' (2024, 1, 24) (1075402 / 1000000)]"

section \<open>Properties of the TWRR engine\<close>



lemma twrr_loop_single: "twrr_loop a t [p] = Inr []"
  by simp











section \<open>Properties of the orchestrator\<close>

lemma bind_err_simps [simp]:
  "bind_err (Inl e) f = Inl e"
  "bind_err (Inr x) f = f x"
  by (simp_all add: bind_err_def)

lemma latest_loop_skip:
  assumes "list_all (\<lambda>q. skipped (get_latest_from_provider w q s e)) pre" "\<not> truthy data"
  shows "\<exists>data'. \<not> truthy data' \<and>
           (\<forall>rest. latest_loop w s e data (pre @ rest) = latest_loop w s e data' rest)"
  using assms
proof (induction pre arbitrary: data)
  case Nil
  then show ?case by auto
next
  case (Cons q pre)
  then show ?case
    by (cases "get_latest_from_provider w q s e") (auto simp: skipped_def)
qed


lemma hist_loop_skip:
  assumes "list_all (\<lambda>q. skipped (get_hist_from_provider w q s e d)) pre" "\<not> truthy data"
  shows "\<exists>data'. \<not> truthy data' \<and>
           (\<forall>rest. hist_loop w s e d data (pre @ rest) = hist_loop w s e d data' rest)"
  using assms
proof (induction pre arbitrary: data)
  case Nil
  then show ?case by auto
next
  case (Cons q pre)
  then show ?case
    by (cases "get_hist_from_provider w q s e d") (auto simp: skipped_def)
qed



lemma select_adapter_unknown:
  "resource_type p \<noteq> ''http'' \<Longrightarrow> resource_type p \<noteq> ''json'' \<Longrightarrow> select_adapter p = Inl ValueError"
  by (simp add: select_adapter_def)

text \<open>
  Claim C6. A provider whose \<^verbatim>\<open>resource_type\<close> is neither \<^verbatim>\<open>http\<close> nor
  \<^verbatim>\<open>json\<close> makes both \<^verbatim>\<open>get_latest_from_provider\<close> and
  \<^verbatim>\<open>get_hist_from_provider\<close> raise \<^verbatim>\<open>ValueError\<close>, and the orchestrator loops
  do not catch it: whenever the loop reaches that provider (every provider before it in
  priority order raised \<^verbatim>\<open>ProviderError\<close> or returned a falsy value), the whole
  call ends with that \<^verbatim>\<open>ValueError\<close>, whatever the providers after it would give.
\<close>

theorem unknown_resource_type_aborts:
  assumes "resource_type p \<noteq> ''http''" and "resource_type p \<noteq> ''json''"
  shows "get_latest_from_provider w p src exch = Inl ValueError \<and>
         get_hist_from_provider w p src exch d = Inl ValueError \<and>
         (order_by_priority providers = pre @ p # post \<and>
          list_all (\<lambda>q. skipped (get_latest_from_provider w q src exch)) pre \<longrightarrow>
            fetch_latest_rates_from_provider w providers src exch = Inl ValueError) \<and>
         (order_by_priority providers = pre @ p # post \<and>
          list_all (\<lambda>q. skipped (get_hist_from_provider w q src exch d)) pre \<longrightarrow>
            fetch_historical_rates_from_provider w currencies store providers src exch d =
              Inl ValueError)"
proof -
  have l: "get_latest_from_provider w p src exch = Inl ValueError"
    using assms by (simp add: get_latest_from_provider_def select_adapter_unknown)
  have h: "get_hist_from_provider w p src exch d = Inl ValueError"
    using assms by (simp add: get_hist_from_provider_def select_adapter_unknown)
  have "fetch_latest_rates_from_provider w providers src exch = Inl ValueError"
    if "order_by_priority providers = pre @ p # post"
      and "list_all (\<lambda>q. skipped (get_latest_from_provider w q src exch)) pre"
  proof -
    from latest_loop_skip [OF that(2), of PNone] obtain data' where
      "latest_loop w src exch PNone (pre @ p # post) = latest_loop w src exch data' (p # post)"
      by auto
    then show ?thesis
      by (simp add: fetch_latest_rates_from_provider_def that(1) l)
  qed
  moreover have "fetch_historical_rates_from_provider w currencies store providers src exch d =
              Inl ValueError"
    if "order_by_priority providers = pre @ p # post"
      and "list_all (\<lambda>q. skipped (get_hist_from_provider w q src exch d)) pre"
  proof -
    from hist_loop_skip [OF that(2), of PNone] obtain data' where
      "hist_loop w src exch d PNone (pre @ p # post) = hist_loop w src exch d data' (p # post)"
      by auto
    then show ?thesis
      by (simp add: fetch_historical_rates_from_provider_def that(1) h)
  qed
  ultimately show ?thesis
    using l h by blast
qed

theorem unknown_resource_type_aborts_witness:
  "get_latest_from_provider eur_gbp_world (csv_provider 2) ''EUR'' ''GBP'' = Inl ValueError \<and>
   get_hist_from_provider eur_gbp_world (csv_provider 2) ''EUR'' ''GBP'' (2024, 1, 25) =
     Inl ValueError \<and>
   fetch_latest_rates_from_provider eur_gbp_world
     [http_provider 3 None, csv_provider 2, json_provider 1 None] ''EUR'' ''GBP'' =
     Inl ValueError \<and>
   fetch_historical_rates_from_provider eur_gbp_world [(''EUR'', 1), (''GBP'', 2)] []
     [http_provider 3 None, csv_provider 2, json_provider 1 None] ''EUR'' ''GBP'' (2024, 1, 25) =
     Inl ValueError"
proof -
  let ?ps = "[http_provider 3 None, csv_provider 2, json_provider 1 None]"
  have t: "resource_type (csv_provider 2) \<noteq> ''http''" "resource_type (csv_provider 2) \<noteq> ''json''"
    by (simp_all add: csv_provider_def)
  have ord: "order_by_priority ?ps = [json_provider 1 None] @ csv_provider 2 # [http_provider 3 None]"
    by code_simp
  have sl: "list_all (\<lambda>q. skipped (get_latest_from_provider eur_gbp_world q ''EUR'' ''GBP''))
              [json_provider 1 None]"
    by code_simp
  have sh: "list_all (\<lambda>q. skipped (get_hist_from_provider eur_gbp_world q ''EUR'' ''GBP'' (2024, 1, 25)))
              [json_provider 1 None]"
    by code_simp
  show ?thesis
    using unknown_resource_type_aborts [OF t, of eur_gbp_world "''EUR''" "''GBP''" "(2024, 1, 25)" ?ps
        "[json_provider 1 None]" "[http_provider 3 None]" "[(''EUR'', 1), (''GBP'', 2)]" "[]"]
      ord sl sh
    by blast
qed




text \<open>
  The case left out above: a provider with a forced base whose reply lacks the source
  currency gives the empty dictionary (see \<open>reverse_rates\<close>); the loop ends with it,
  \<^verbatim>\<open>if data is not None\<close> lets it through, and \<^verbatim>\<open>data[exchanged_currency_code]\<close>
  raises \<^verbatim>\<open>KeyError\<close>.
\<close>

lemma empty_result_escapes:
  "get_hist_from_provider
     (serving [(''http://data.fixer.io/api/2024-01-25'', ''EUR'', ''GBP,USD'',
                rates_body [(''GBP'', 9 / 10)])] (PList []))
     (http_provider 1 (Some ''EUR'')) ''USD'' ''GBP'' (2024, 1, 25) = Inr (PDict []) \<and>
   fetch_historical_rates_from_provider
     (serving [(''http://data.fixer.io/api/2024-01-25'', ''EUR'', ''GBP,USD'',
                rates_body [(''GBP'', 9 / 10)])] (PList []))
     [(''EUR'', 1), (''USD'', 2), (''GBP'', 3)] []
     [http_provider 1 (Some ''EUR'')] ''USD'' ''GBP'' (2024, 1, 25) = Inl KeyError"
  by code_simp

section \<open>Properties of the adapters and of rebasing\<close>






lemma file_latest_never_mapping:
  assumes "kind a = FileJsonAdapter"
  shows "get_latest_rate w a src exch \<noteq> Inr (PDict kv)"
proof -
  have td: "to_decimal w v \<noteq> Inr (PDict kv)" for v
    by (cases v) (auto split: option.splits)
  show ?thesis
    using assms td
    by (auto simp: get_latest_rate_def file_get_latest_rate_def bind_err_def
        split: pyval.splits sum.splits option.splits)
qed





section \<open>Properties of the reverse-rates transform\<close>






text \<open>
  Claim C10. For a mapping without an entry for the source currency,
  \<^verbatim>\<open>reverse_rates\<close> returns the empty mapping and raises nothing. In the provider
  path this is an empty provider result: \<^verbatim>\<open>get_hist_from_provider\<close> returns the
  empty mapping, which is falsy, and the orchestrator's loop goes on to the next
  provider with it.
\<close>

theorem reverse_rates_missing_source:
  assumes "map_of kv src = None"
  shows "reverse_rates src (PDict kv) = Inr (PDict []) \<and>
         (select_adapter p = Inr a \<and> forced_base p src = Some base \<and>
          get_historical_rates w a base (compound exch src) d = Inr (PDict kv) \<longrightarrow>
            get_hist_from_provider w p src exch d = Inr (PDict []) \<and>
            hist_loop w src exch d data (p # ps) = hist_loop w src exch d (PDict []) ps)"
  using assms by (simp add: get_hist_from_provider_def)

theorem reverse_rates_missing_source_witness:
  "reverse_rates ''USD'' (PDict [(''GBP'', PNum (9 / 10))]) = Inr (PDict []) \<and>
   get_hist_from_provider
     (serving [(''http://data.fixer.io/api/2024-01-25'', ''EUR'', ''GBP,USD'',
                rates_body [(''GBP'', 9 / 10)])] (PList []))
     (http_provider 1 (Some ''EUR'')) ''USD'' ''GBP'' (2024, 1, 25) = Inr (PDict [])"
proof -
  let ?w = "serving [(''http://data.fixer.io/api/2024-01-25'', ''EUR'', ''GBP,USD'',
                rates_body [(''GBP'', 9 / 10)])] (PList [])"
  have m: "map_of [(''GBP'', PNum (9 / 10))] ''USD'' = None"
    by simp
  have sel: "select_adapter (http_provider 1 (Some ''EUR'')) = Inr http_adapter"
    by code_simp
  have fb: "forced_base (http_provider 1 (Some ''EUR'')) ''USD'' = Some ''EUR''"
    by code_simp
  have raw: "get_historical_rates ?w http_adapter ''EUR'' (compound ''GBP'' ''USD'')
               (2024, 1, 25) = Inr (PDict [(''GBP'', PNum (9 / 10))])"
    by code_simp
  show ?thesis
    using reverse_rates_missing_source [OF m, of "http_provider 1 (Some ''EUR'')" http_adapter
        "''EUR''" ?w "''GBP''" "(2024, 1, 25)"] sel fb raw
    by blast
qed

section \<open>Properties of the period aggregator\<close>

text \<open>
  What a date group is: the groups have distinct dates, and the group of a date holds
  the rows read for that date, in the order read. For a non-EUR source the rows read
  are all the rows of the store in the range, sorted by date.
\<close>

lemma map_of_add_to_group:
  "map_of (add_to_group row gs) d =
     (if d = valuation_date row
      then Some ((case map_of gs d of None \<Rightarrow> [] | Some rs \<Rightarrow> rs) @ [row])
      else map_of gs d)"
  by (induction gs) auto

lemma keys_add_to_group:
  "fst ` set (add_to_group row gs) = insert (valuation_date row) (fst ` set gs)"
proof (induction gs)
  case Nil
  then show ?case by simp
next
  case (Cons g gs)
  obtain d rs where g: "g = (d, rs)" by (cases g)
  show ?case
    using Cons by (cases "d = valuation_date row") (simp_all add: g insert_commute)
qed

lemma distinct_add_to_group:
  "distinct (map fst gs) \<Longrightarrow> distinct (map fst (add_to_group row gs))"
proof (induction gs)
  case Nil
  then show ?case by simp
next
  case (Cons g gs)
  obtain d rs where g: "g = (d, rs)" by (cases g)
  show ?case
  proof (cases "d = valuation_date row")
    case True
    with Cons.prems show ?thesis by (simp add: g)
  next
    case False
    have "d \<notin> fst ` set (add_to_group row gs)"
      using False Cons.prems by (simp add: keys_add_to_group g)
    with False Cons show ?thesis by (simp add: g)
  qed
qed

lemma rates_grouped_by_date_snoc:
  "rates_grouped_by_date (rows @ [row]) = add_to_group row (rates_grouped_by_date rows)"
  by (simp add: rates_grouped_by_date_def)

lemma distinct_rates_grouped_by_date:
  "distinct (map fst (rates_grouped_by_date rows))"
proof (induction rows rule: rev_induct)
  case Nil
  then show ?case by (simp add: rates_grouped_by_date_def)
next
  case (snoc row rows)
  then show ?case
    by (simp add: rates_grouped_by_date_snoc distinct_add_to_group)
qed

lemma map_of_rates_grouped_by_date:
  "map_of (rates_grouped_by_date rows) d =
     (if filter (\<lambda>r. valuation_date r = d) rows = [] then None
      else Some (filter (\<lambda>r. valuation_date r = d) rows))"
proof (induction rows arbitrary: d rule: rev_induct)
  case Nil
  then show ?case by (simp add: rates_grouped_by_date_def)
next
  case (snoc row rows)
  show ?case
    by (simp add: rates_grouped_by_date_snoc map_of_add_to_group snoc.IH)
qed

lemma rates_grouped_by_date_rows:
  assumes "g \<in> set (rates_grouped_by_date rows)"
  shows "snd g = filter (\<lambda>r. valuation_date r = fst g) rows \<and> snd g \<noteq> []"
proof -
  obtain d rs where g: "g = (d, rs)" by (cases g)
  with assms distinct_rates_grouped_by_date [of rows]
  have "map_of (rates_grouped_by_date rows) d = Some rs"
    by simp
  then show ?thesis
    by (simp add: g map_of_rates_grouped_by_date split: if_splits)
qed

lemma get_db_rates_non_eur:
  assumes "src \<noteq> ''EUR''"
  shows "set (get_db_rates store src exch date_from date_to) =
           {r \<in> set store. in_range date_from date_to r}"
    and "sorted (map (\<lambda>r. date_key (valuation_date r))
           (get_db_rates store src exch date_from date_to))"
  using assms by (simp_all add: get_db_rates_def)

lemma find_snoc:
  "find P (xs @ [x]) = (case find P xs of None \<Rightarrow> (if P x then Some x else None) | Some y \<Rightarrow> Some y)"
  by (induction xs) auto

lemma processed_rates_ok:
  assumes "rate_value base \<noteq> 0"
  shows "\<exists>out. processed_rates base rates acc = Inr out \<and>
           (\<forall>c. map_of out c =
              (if c \<noteq> exchanged_currency base
               then (case last_rate c rates of
                       Some r \<Rightarrow> Some (PNum (round6 (rate_value r / rate_value base)))
                     | None \<Rightarrow> map_of acc c)
               else map_of acc c))"
proof (induction rates arbitrary: acc)
  case Nil
  then show ?case by (simp add: last_rate_def)
next
  case (Cons r rates)
  show ?case
  proof (cases "exchanged_currency r = exchanged_currency base")
    case True
    from Cons.IH [of acc] obtain out where
      run: "processed_rates base rates acc = Inr out"
      and look: "\<And>c. map_of out c =
              (if c \<noteq> exchanged_currency base
               then (case last_rate c rates of
                       Some r \<Rightarrow> Some (PNum (round6 (rate_value r / rate_value base)))
                     | None \<Rightarrow> map_of acc c)
               else map_of acc c)"
      by blast
    have "processed_rates base (r # rates) acc = Inr out"
      using True run by simp
    moreover have "map_of out c =
              (if c \<noteq> exchanged_currency base
               then (case last_rate c (r # rates) of
                       Some r \<Rightarrow> Some (PNum (round6 (rate_value r / rate_value base)))
                     | None \<Rightarrow> map_of acc c)
               else map_of acc c)" for c
      using True by (auto simp: look last_rate_def find_snoc split: option.splits)
    ultimately show ?thesis by blast
  next
    case False
    let ?acc = "AList.update (exchanged_currency r)
                  (PNum (round6 (rate_value r / rate_value base))) acc"
    from Cons.IH [of ?acc] obtain out where
      run: "processed_rates base rates ?acc = Inr out"
      and look: "\<And>c. map_of out c =
              (if c \<noteq> exchanged_currency base
               then (case last_rate c rates of
                       Some r \<Rightarrow> Some (PNum (round6 (rate_value r / rate_value base)))
                     | None \<Rightarrow> map_of ?acc c)
               else map_of ?acc c)"
      by blast
    have "processed_rates base (r # rates) acc = Inr out"
      using False assms run by simp
    moreover have "map_of out c =
              (if c \<noteq> exchanged_currency base
               then (case last_rate c (r # rates) of
                       Some r \<Rightarrow> Some (PNum (round6 (rate_value r / rate_value base)))
                     | None \<Rightarrow> map_of acc c)
               else map_of acc c)" for c
      using False
      by (auto simp: look last_rate_def find_snoc update_conv' split: option.splits)
    ultimately show ?thesis by blast
  qed
qed

lemma process_group_no_base:
  assumes "src \<noteq> ''EUR''" and "find (\<lambda>r. exchanged_currency r = src) (snd g) = None"
  shows "process_group src g = Inl ValueError"
  using assms by (simp add: process_group_def)

lemma process_group_ok:
  assumes "src \<noteq> ''EUR''"
    and "find (\<lambda>r. exchanged_currency r = src) (snd g) = Some base"
    and "rate_value base \<noteq> 0"
  shows "\<exists>m. process_group src g = Inr (rate_map (fst g) m) \<and>
           map_of m ''EUR'' = Some (PNum (round6 (1 / rate_value base))) \<and>
           map_of m src = None \<and>
           (\<forall>c. c \<noteq> src \<and> c \<noteq> ''EUR'' \<longrightarrow>
              map_of m c =
                map_option (\<lambda>r. PNum (round6 (rate_value r / rate_value base)))
                  (last_rate c (snd g)))"
proof -
  have code: "exchanged_currency base = src"
    using assms(2) by (auto simp: find_Some_iff)
  from processed_rates_ok [OF assms(3), of "snd g" "[]"] obtain pr where
    run: "processed_rates base (snd g) [] = Inr pr"
    and look: "\<And>c. map_of pr c =
              (if c \<noteq> exchanged_currency base
               then (case last_rate c (snd g) of
                       Some r \<Rightarrow> Some (PNum (round6 (rate_value r / rate_value base)))
                     | None \<Rightarrow> map_of [] c)
               else map_of [] c)"
    by blast
  let ?m = "AList.update ''EUR'' (PNum (round6 (1 / rate_value base))) pr"
  have "process_group src g = Inr (rate_map (fst g) ?m)"
    using assms run by (simp add: process_group_def rate_map_def)
  moreover have "map_of ?m ''EUR'' = Some (PNum (round6 (1 / rate_value base)))"
    by (simp add: update_conv')
  moreover have "map_of ?m src = None"
    using assms(1) by (simp add: update_conv' look code)
  moreover have "map_of ?m c =
                map_option (\<lambda>r. PNum (round6 (rate_value r / rate_value base)))
                  (last_rate c (snd g))" if "c \<noteq> src \<and> c \<noteq> ''EUR''" for c
    using that by (simp add: update_conv' look code split: option.splits)
  ultimately show ?thesis
    by blast
qed

lemma process_groups_Inr:
  "process_groups src gs = Inr res \<Longrightarrow> list_all2 (\<lambda>g x. process_group src g = Inr x) gs res"
  by (induction gs arbitrary: res) (auto split: sum.splits)

lemma process_groups_Inl:
  "g \<in> set gs \<Longrightarrow> process_group src g = Inl e \<Longrightarrow> \<exists>e'. process_groups src gs = Inl e'"
  by (induction gs) (auto split: sum.splits)

lemma period_groups:
  "get_currency_rates_for_period store src exch date_from date_to =
     process_groups src (rates_grouped_by_date (get_db_rates store src exch date_from date_to))"
  by (simp add: get_currency_rates_for_period_def Let_def process_db_rates_def
      rates_grouped_by_date_def)

text \<open>
  Claim C4, as the code has it. For a source currency other than EUR and a date group
  \<open>g\<close> of the rows \<^verbatim>\<open>get_currency_rates_for_period\<close> reads:
  \<^item> if no row of the group has the source currency as its exchanged currency, the
    group raises \<^verbatim>\<open>ValueError\<close> and the whole call ends in an error;
  \<^item> otherwise, with \<open>base\<close> the first such row and its rate not zero, the rate map
    of that date maps \<^verbatim>\<open>"EUR"\<close> to \<open>round (1 / rate base, 6)\<close>, whatever the
    group stores for EUR, has no entry for the source currency, and maps every other
    currency \<open>c\<close> to \<open>round (rate r / rate base, 6)\<close> for the last row \<open>r\<close> of the
    group with exchanged currency \<open>c\<close> (no entry when there is none);
  \<^item> when the call returns, it returns the rate maps of the groups, in order.
\<close>

theorem period_rates_non_eur:
  assumes "src \<noteq> ''EUR''"
    and "g \<in> set (rates_grouped_by_date (get_db_rates store src exch date_from date_to))"
  shows "(find (\<lambda>r. exchanged_currency r = src) (snd g) = None \<longrightarrow>
            process_group src g = Inl ValueError \<and>
            (\<exists>e. get_currency_rates_for_period store src exch date_from date_to = Inl e)) \<and>
         (\<forall>base. find (\<lambda>r. exchanged_currency r = src) (snd g) = Some base \<and>
                 rate_value base \<noteq> 0 \<longrightarrow>
            (\<exists>m. process_group src g = Inr (rate_map (fst g) m) \<and>
                 map_of m ''EUR'' = Some (PNum (round6 (1 / rate_value base))) \<and>
                 map_of m src = None \<and>
                 (\<forall>c. c \<noteq> src \<and> c \<noteq> ''EUR'' \<longrightarrow>
                    map_of m c =
                      map_option (\<lambda>r. PNum (round6 (rate_value r / rate_value base)))
                        (last_rate c (snd g))))) \<and>
         (\<forall>res. get_currency_rates_for_period store src exch date_from date_to = Inr res \<longrightarrow>
            list_all2 (\<lambda>g x. process_group src g = Inr x)
              (rates_grouped_by_date (get_db_rates store src exch date_from date_to)) res)"
proof (intro conjI impI allI)
  assume n: "find (\<lambda>r. exchanged_currency r = src) (snd g) = None"
  show "process_group src g = Inl ValueError"
    using assms(1) n by (rule process_group_no_base)
  then show "\<exists>e. get_currency_rates_for_period store src exch date_from date_to = Inl e"
    unfolding period_groups using assms(2) by (rule process_groups_Inl [rotated])
next
  fix base
  assume "find (\<lambda>r. exchanged_currency r = src) (snd g) = Some base \<and> rate_value base \<noteq> 0"
  then show "\<exists>m. process_group src g = Inr (rate_map (fst g) m) \<and>
                 map_of m ''EUR'' = Some (PNum (round6 (1 / rate_value base))) \<and>
                 map_of m src = None \<and>
                 (\<forall>c. c \<noteq> src \<and> c \<noteq> ''EUR'' \<longrightarrow>
                    map_of m c =
                      map_option (\<lambda>r. PNum (round6 (rate_value r / rate_value base)))
                        (last_rate c (snd g)))"
    using process_group_ok [OF assms(1), of g base] by blast
next
  fix res
  assume "get_currency_rates_for_period store src exch date_from date_to = Inr res"
  then show "list_all2 (\<lambda>g x. process_group src g = Inr x)
              (rates_grouped_by_date (get_db_rates store src exch date_from date_to)) res"
    unfolding period_groups by (rule process_groups_Inr)
qed

theorem period_rates_non_eur_witness:
  "process_group ''USD'' ((2024, 1, 24), [stored ''EUR'' ''GBP'' (2024, 1, 24) 3]) = Inl ValueError \<and>
   (\<exists>e. get_currency_rates_for_period gap_store ''USD'' ''GBP'' (2024, 1, 23) (2024, 1, 24) = Inl e) \<and>
   (\<exists>m. process_group ''USD'' ((2024, 1, 23), eur_store) = Inr (rate_map (2024, 1, 23) m) \<and>
        map_of m ''EUR'' = Some (PNum (round6 (1 / 2))) \<and>
        map_of m ''USD'' = None \<and>
        map_of m ''GBP'' = Some (PNum (round6 (4 / 2)))) \<and>
   list_all2 (\<lambda>g x. process_group ''USD'' g = Inr x) [((2024, 1, 23), eur_store)]
     [rate_map (2024, 1, 23) [(''GBP'', PNum 2), (''EUR'', PNum (1 / 2))]]"
proof -
  let ?g2 = "((2024, 1, 24) :: date, [stored ''EUR'' ''GBP'' (2024, 1, 24) 3])"
  let ?g1 = "((2024, 1, 23) :: date, eur_store)"
  have ne: "''USD'' \<noteq> ''EUR''"
    by simp
  have in2: "?g2 \<in> set (rates_grouped_by_date
               (get_db_rates gap_store ''USD'' ''GBP'' (2024, 1, 23) (2024, 1, 24)))"
    by code_simp
  have f2: "find (\<lambda>r. exchanged_currency r = ''USD'') (snd ?g2) = None"
    by code_simp
  have grp: "rates_grouped_by_date (get_db_rates eur_store ''USD'' ''GBP'' (2024, 1, 23) (2024, 1, 24)) =
               [?g1]"
    by code_simp
  then have in1: "?g1 \<in> set (rates_grouped_by_date
               (get_db_rates eur_store ''USD'' ''GBP'' (2024, 1, 23) (2024, 1, 24)))"
    by simp
  have f1: "find (\<lambda>r. exchanged_currency r = ''USD'') (snd ?g1) =
              Some (stored ''EUR'' ''USD'' (2024, 1, 23) 2)"
    by code_simp
  have b: "rate_value (stored ''EUR'' ''USD'' (2024, 1, 23) 2) = 2"
    by (simp add: stored_def)
  have lg: "last_rate ''GBP'' eur_store = Some (stored ''EUR'' ''GBP'' (2024, 1, 23) 4)"
    by code_simp
  have rg: "rate_value (stored ''EUR'' ''GBP'' (2024, 1, 23) 4) = 4"
    by (simp add: stored_def)
  have run: "get_currency_rates_for_period eur_store ''USD'' ''GBP'' (2024, 1, 23) (2024, 1, 24) =
               Inr [rate_map (2024, 1, 23) [(''GBP'', PNum 2), (''EUR'', PNum (1 / 2))]]"
    by code_simp
  have nz: "rate_value (stored ''EUR'' ''USD'' (2024, 1, 23) 2) \<noteq> 0"
    by (simp add: stored_def)
  note a = period_rates_non_eur [OF ne in2, THEN conjunct1, rule_format, OF f2]
  note c = period_rates_non_eur [OF ne in1, THEN conjunct2, THEN conjunct1, rule_format,
      OF conjI [OF f1 nz]]
  note r = period_rates_non_eur [OF ne in1, THEN conjunct2, THEN conjunct2, rule_format, OF run]
  from c obtain m where
    m: "process_group ''USD'' ?g1 = Inr (rate_map (fst ?g1) m) \<and>
        map_of m ''EUR'' =
          Some (PNum (round6 (1 / rate_value (stored ''EUR'' ''USD'' (2024, 1, 23) 2)))) \<and>
        map_of m ''USD'' = None \<and>
        (\<forall>c. c \<noteq> ''USD'' \<and> c \<noteq> ''EUR'' \<longrightarrow>
          map_of m c =
            map_option
              (\<lambda>r. PNum (round6 (rate_value r / rate_value (stored ''EUR'' ''USD'' (2024, 1, 23) 2))))
              (last_rate c (snd ?g1)))"
    by (rule exE)
  note m1 = m [THEN conjunct1]
  note m2 = m [THEN conjunct2, THEN conjunct1]
  note m3 = m [THEN conjunct2, THEN conjunct2, THEN conjunct1]
  note m4 = m [THEN conjunct2, THEN conjunct2, THEN conjunct2, rule_format, of "''GBP''"]
  have m5: "map_of m ''GBP'' = Some (PNum (round6 (4 / 2)))"
    using m4 by (simp add: lg rg b)
  have m1': "process_group ''USD'' ?g1 = Inr (rate_map (2024, 1, 23) m)"
    using m1 by simp
  have m2': "map_of m ''EUR'' = Some (PNum (round6 (1 / 2)))"
    using m2 by (simp only: b)
  have 3: "\<exists>m. process_group ''USD'' ?g1 = Inr (rate_map (2024, 1, 23) m) \<and>
        map_of m ''EUR'' = Some (PNum (round6 (1 / 2))) \<and>
        map_of m ''USD'' = None \<and>
        map_of m ''GBP'' = Some (PNum (round6 (4 / 2)))"
    by (rule exI [of _ m]) (intro conjI m1' m2' m3 m5)
  have 4: "list_all2 (\<lambda>g x. process_group ''USD'' g = Inr x) [?g1]
     [rate_map (2024, 1, 23) [(''GBP'', PNum 2), (''EUR'', PNum (1 / 2))]]"
    using r unfolding grp .
  show ?thesis
    by (intro conjI a [THEN conjunct1] a [THEN conjunct2] 3 4)
qed

text \<open>
  The claim as the specification words it maps every other currency of the group to
  the quotient of the stored rates and adds EUR. A non-EUR source reads the rows of
  every pair, so a group can hold a row whose exchanged currency is EUR: here USD to EUR
  at 4 beside EUR to USD at 2. The quotient would be 2; the rate map has the synthesized
  \<open>1 / 2\<close>, merged over it.
\<close>

theorem period_rates_non_eur_counterexample:
  "rates_grouped_by_date (get_db_rates mixed_store ''USD'' ''EUR'' (2024, 1, 23) (2024, 1, 23)) =
     [((2024, 1, 23), mixed_store)] \<and>
   get_currency_rates_for_period mixed_store ''USD'' ''EUR'' (2024, 1, 23) (2024, 1, 23) =
     Inr [rate_map (2024, 1, 23) [(''EUR'', PNum (1 / 2))]]"
  by code_simp

section \<open>Properties of \<^verbatim>\<open>get_weighted_ror\<close>\<close>

text \<open>
  Claim C8, evaluated on the code. The store holds, under source USD, the EUR rates 1.0
  on 2024-01-23 and 0.900611 on 2024-01-24. A non-EUR source makes
  \<^verbatim>\<open>process_db_rates\<close> look, in each date group, for a row whose exchanged currency
  is USD; the groups have none, so the call raises \<^verbatim>\<open>ValueError\<close> and no TWRR point
  is produced.
\<close>

theorem get_weighted_ror_example:
  "get_weighted_ror usd_eur_store (2024, 1, 25) ''USD'' ''EUR'' 1000 (2024, 1, 23) =
     Inl ValueError"
  by code_simp

text \<open>
  The same request does not yield a point on any store. With the USD denominators
  stored, the rate maps reach \<^verbatim>\<open>calculate_twrr\<close>, which reads
  \<^verbatim>\<open>"rate_value"\<close>, a key the rate maps (\<^verbatim>\<open>"date"\<close>, \<^verbatim>\<open>"rates"\<close>) do not
  have: \<^verbatim>\<open>KeyError\<close>. With an empty store the back-fill loop compares a
  \<^verbatim>\<open>datetime\<close> with a string: \<^verbatim>\<open>TypeError\<close>. Whenever the call returns, its
  \<^verbatim>\<open>twrr\<close> list is empty.
\<close>

lemma get_weighted_ror_with_denominator:
  "get_currency_rates_for_period usd_based_store ''USD'' ''EUR'' (2024, 1, 23) (2024, 1, 25) =
     Inr [rate_map (2024, 1, 23) [(''EUR'', PNum (round6 (1000000 / 1084776)))],
          rate_map (2024, 1, 24) [(''EUR'', PNum (round6 (1000000 / 1075402)))]] \<and>
   get_weighted_ror usd_based_store (2024, 1, 25) ''USD'' ''EUR'' 1000 (2024, 1, 23) =
     Inl KeyError"
  by code_simp

lemma get_weighted_ror_empty_store:
  "get_weighted_ror [] (2024, 1, 25) ''USD'' ''EUR'' 1000 (2024, 1, 23) = Inl TypeError"
  by code_simp

lemma process_group_no_rate_value:
  "process_group src g = Inr x \<Longrightarrow> py_getitem x ''rate_value'' = Inl KeyError"
  by (auto simp: process_group_def bind_err_def split: if_splits option.splits sum.splits)

lemma get_weighted_ror_no_point:
  assumes "get_weighted_ror store today src exch amount start_date = Inr res"
  shows "py_getitem res ''twrr'' = Inr (PList [])"
proof -
  from assms obtain hr twrrs where
    hr: "get_currency_rates_for_period store src exch start_date today = Inr hr"
    and tw: "calculate_twrr hr amount = Inr twrrs"
    and res: "res = PDict [(''base'', PStr src), (''exchanged'', PStr exch),
                           (''amount'', PNum amount), (''start_date'', PDate start_date),
                           (''twrr'', PList twrrs)]"
    by (auto simp: get_weighted_ror_def bind_err_def split: sum.splits if_splits)
  from hr have all: "list_all2 (\<lambda>g x. process_group src g = Inr x)
      (rates_grouped_by_date (get_db_rates store src exch start_date today)) hr"
    unfolding period_groups by (rule process_groups_Inr)
  have "twrrs = []"
  proof (cases hr)
    case Nil
    with tw show ?thesis by (simp add: calculate_twrr_def)
  next
    case (Cons x xs)
    show ?thesis
    proof (cases xs)
      case Nil
      with Cons tw show ?thesis by (simp add: calculate_twrr_def)
    next
      case (Cons y ys)
      from all \<open>hr = x # xs\<close> obtain g where "process_group src g = Inr x"
        by (auto simp: list_all2_Cons2)
      then have "py_getitem x ''rate_value'' = Inl KeyError"
        by (rule process_group_no_rate_value)
      with tw \<open>hr = x # xs\<close> Cons show ?thesis
        by (simp add: calculate_twrr_def)
    qed
  qed
  with res show ?thesis
    by simp
qed

end
